theory Spec2Isabelle
  imports
    Main
    "HOL-Library.Char_ord"
    "HOL-Library.List_Lexorder"
    "HOL-Library.Product_Lexorder"
    "HOL-Library.AList"
begin

section \<open>Values and errors\<close>

text \<open>
  The exporter is Python 2. A \<open>str\<close> is a \<^typ>\<open>string\<close>, a value that may be \<open>None\<close> is
  a \<^typ>\<open>string option\<close>, and a \<open>dict\<close> is an association list with pairwise distinct
  keys whose order stands for the (unspecified) iteration order of the dictionary.
  Every exception the modelled code can raise is a constructor of \<open>error\<close>.
\<close>

datatype error =
    ExporterError string    \<comment> \<open>\<open>class ExporterError(RuntimeError)\<close>, with its message\<close>
  | KeyError string         \<comment> \<open>a missing dictionary key\<close>
  | TypeError               \<comment> \<open>\<open>pattern.match(None)\<close>\<close>
  | ReError string          \<comment> \<open>\<open>re.error\<close> raised by \<open>re.compile\<close>, with its message\<close>
  | Unmodelled              \<comment> \<open>pattern syntax outside the fragment of \<open>re\<close> modelled below\<close>

section \<open>The fact queue (\<open>Queue.Queue\<close>)\<close>

text \<open>
  A queue is the list of its pending items, oldest first. \<open>put_nowait\<close> appends at the
  back; \<open>get_nowait\<close> takes from the front and signals \<open>Queue.Empty\<close> on an empty
  queue. The queue is unbounded, so \<open>put_nowait\<close> never raises \<open>Queue.Full\<close>.
\<close>

datatype queue_signal = QueueEmpty

definition put_nowait :: "'a \<Rightarrow> 'a list \<Rightarrow> 'a list" where
  "put_nowait x q = q @ [x]"

definition get_nowait :: "'a list \<Rightarrow> queue_signal + ('a \<times> 'a list)" where
  "get_nowait q = (case q of [] \<Rightarrow> Inl QueueEmpty | x # q' \<Rightarrow> Inr (x, q'))"

text \<open>
  The body of \<open>Ec2Conn.get\<close>:
  \<^verbatim>\<open>
    try:
        while True:
            yield self._data_queue.get_nowait()
    except Queue.Empty:
        pass
  \<close>
  \<open>get_loop q out\<close> is the loop started on queue \<open>q\<close> with \<open>out\<close> already yielded; it
  returns everything yielded and the queue that is left.
\<close>

function get_loop :: "'a list \<Rightarrow> 'a list \<Rightarrow> 'a list \<times> 'a list" where
  "get_loop q out =
     (case get_nowait q of
        Inl QueueEmpty \<Rightarrow> (out, q)
      | Inr (x, q') \<Rightarrow> get_loop q' (out @ [x]))"
  by pat_completeness auto
termination
  by (relation "measure (\<lambda>(q, out). length q)")
     (auto simp: get_nowait_def split: list.splits)

declare get_loop.simps [simp del]

section \<open>Regular expressions: the fragment of Python's \<open>re\<close> the filters use\<close>

text \<open>
  The filters are built with \<open>re.compile\<close> and applied with \<open>pattern.match\<close>, both of the
  Python standard library. The model covers the fragment made of literal characters,
  \<open>.\<close>, \<open>^\<close>, \<open>$\<close>, \<open>|\<close>, groups in parentheses, and \<open>*\<close> after a literal or a \<open>.\<close>,
  without flags. Anything else (\<open>\\\<close>, \<open>[\<close>, \<open>{\<close>, \<open>+\<close>, \<open>?\<close>, \<open>*\<close> after a group) compiles
  to the error \<open>Unmodelled\<close>, about which nothing is claimed.
\<close>

datatype regex =
    RLit char           \<comment> \<open>one given character\<close>
  | RDot                \<comment> \<open>\<open>.\<close>: any character but a newline\<close>
  | RBol                \<comment> \<open>\<open>^\<close>: the start of the subject\<close>
  | REol                \<comment> \<open>\<open>$\<close>: the end of the subject, or just before a final newline\<close>
  | REps                \<comment> \<open>the empty sequence\<close>
  | RSeq regex regex
  | RAlt regex regex
  | RStar regex

definition newline :: char where
  "newline = CHR 0x0A"

definition backslash :: char where
  "backslash = CHR 0x5C"

text \<open>
  A cursor is a position in the subject: whether it is the start of the subject, and the
  text that is left. \<open>adv r p\<close> lists the cursors at which a match of \<open>r\<close> started at \<open>p\<close>
  can end. A repetition is closed under one more round as many times as there are
  characters left (a round that consumes nothing reaches no new cursor).
\<close>

type_synonym cursor = "bool \<times> string"

primrec star_close :: "nat \<Rightarrow> (cursor \<Rightarrow> cursor list) \<Rightarrow> cursor list \<Rightarrow> cursor list" where
  "star_close 0 f ps = ps"
| "star_close (Suc n) f ps = star_close n f (remdups (ps @ concat (map f ps)))"

primrec adv :: "regex \<Rightarrow> cursor \<Rightarrow> cursor list" where
  "adv (RLit c) p = (case snd p of [] \<Rightarrow> [] | x # xs \<Rightarrow> if x = c then [(False, xs)] else [])"
| "adv RDot p = (case snd p of [] \<Rightarrow> [] | x # xs \<Rightarrow> if x \<noteq> newline then [(False, xs)] else [])"
| "adv RBol p = (if fst p then [p] else [])"
| "adv REol p = (if snd p = [] \<or> snd p = [newline] then [p] else [])"
| "adv REps p = [p]"
| "adv (RSeq a b) p = concat (map (adv b) (adv a p))"
| "adv (RAlt a b) p = adv a p @ adv b p"
| "adv (RStar a) p = star_close (length (snd p)) (adv a) [p]"

text \<open>\<open>pattern.match(s)\<close> is truthy when some match starts at the beginning of \<open>s\<close>;
  it need not reach the end of \<open>s\<close>.\<close>

definition re_match :: "regex \<Rightarrow> string \<Rightarrow> bool" where
  "re_match r s = (adv r (True, s) \<noteq> [])"

text \<open>
  The parser reads the pattern left to right. A frame holds the finished alternatives of
  the group being read and the items of its current alternative; the frames of the
  enclosing groups wait on a stack.
\<close>

type_synonym frame = "regex list \<times> regex list"

definition mk_seq :: "regex list \<Rightarrow> regex" where
  "mk_seq items = foldr RSeq items REps"

definition close_frame :: "frame \<Rightarrow> regex" where
  "close_frame f = foldr RAlt (fst f) (mk_seq (snd f))"

definition repeat_last :: "regex list \<Rightarrow> error + regex list" where
  "repeat_last cur =
     (if cur = [] then Inl (ReError ''nothing to repeat'')
      else case last cur of
             RBol \<Rightarrow> Inl (ReError ''nothing to repeat'')
           | REol \<Rightarrow> Inl (ReError ''nothing to repeat'')
           | RStar a \<Rightarrow> Inl (ReError ''multiple repeat'')
           | RLit c \<Rightarrow> Inr (butlast cur @ [RStar (RLit c)])
           | RDot \<Rightarrow> Inr (butlast cur @ [RStar RDot])
           | REps \<Rightarrow> Inl Unmodelled
           | RSeq a b \<Rightarrow> Inl Unmodelled
           | RAlt a b \<Rightarrow> Inl Unmodelled)"

definition parse_char :: "char \<Rightarrow> frame \<times> frame list \<Rightarrow> error + frame \<times> frame list" where
  "parse_char c st =
     (case st of ((alts, cur), stk) \<Rightarrow>
        if c = CHR ''(''
          then Inr (([], []), (alts, cur) # stk)
        else if c = CHR '')''
          then (case stk of
                  [] \<Rightarrow> Inl (ReError ''unbalanced parenthesis'')
                | (palts, pcur) # stk' \<Rightarrow>
                    Inr ((palts, pcur @ [close_frame (alts, cur)]), stk'))
        else if c = CHR ''|''
          then Inr ((alts @ [mk_seq cur], []), stk)
        else if c = CHR ''*''
          then (case repeat_last cur of
                  Inl e \<Rightarrow> Inl e
                | Inr cur' \<Rightarrow> Inr ((alts, cur'), stk))
        else if c = CHR ''.'' then Inr ((alts, cur @ [RDot]), stk)
        else if c = CHR ''^'' then Inr ((alts, cur @ [RBol]), stk)
        else if c = CHR ''$'' then Inr ((alts, cur @ [REol]), stk)
        else if c = backslash \<or> c = CHR ''['' \<or> c = CHR ''{'' \<or> c = CHR ''+'' \<or> c = CHR ''?''
          then Inl Unmodelled
        else Inr ((alts, cur @ [RLit c]), stk))"

fun parse_chars :: "string \<Rightarrow> frame \<times> frame list \<Rightarrow> error + frame \<times> frame list" where
  "parse_chars [] st = Inr st"
| "parse_chars (c # cs) st =
     (case parse_char c st of Inl e \<Rightarrow> Inl e | Inr st' \<Rightarrow> parse_chars cs st')"

definition re_compile :: "string \<Rightarrow> error + regex" where
  "re_compile pat =
     (case parse_chars pat (([], []), []) of
        Inl e \<Rightarrow> Inl e
      | Inr (f, stk) \<Rightarrow>
          if stk = [] then Inr (close_frame f)
          else Inl (ReError ''unbalanced parenthesis''))"

section \<open>Strings\<close>

text \<open>\<open>str.lower()\<close> of Python 2 on a byte string: the letters \<open>A\<close> to \<open>Z\<close> go to \<open>a\<close> to
  \<open>z\<close>, every other byte stays.\<close>

definition lower_char :: "char \<Rightarrow> char" where
  "lower_char c =
     (if CHR ''A'' \<le> c \<and> c \<le> CHR ''Z'' then char_of (of_char c + (32::nat)) else c)"

definition lower :: "string \<Rightarrow> string" where
  "lower s = map lower_char s"

text \<open>\<open>sep.join(xs)\<close>.\<close>

fun join :: "string \<Rightarrow> string list \<Rightarrow> string" where
  "join sep [] = []"
| "join sep [x] = x"
| "join sep (x # y # ys) = x @ sep @ join sep (y # ys)"

section \<open>Configuration values\<close>

text \<open>
  A value of the YAML configuration where the code expects a string or a list of
  strings. \<open>isinstance(value, basestring)\<close> is the test for \<open>CStr\<close>. Iterating over a
  string yields its characters, as one-character strings.
\<close>

datatype cfgval = CStr string | CList "string list"

fun cfg_iter :: "cfgval \<Rightarrow> string list" where
  "cfg_iter (CStr s) = map (\<lambda>c. [c]) s"
| "cfg_iter (CList xs) = xs"

text \<open>The \<open>filters\<close> dictionary: its optional entries \<open>status\<close> and \<open>tags\<close>.\<close>

record filter_conf =
  status :: "cfgval option"
  tags :: "(string \<times> cfgval) list option"

text \<open>One provider entry of the configuration: its optional entries \<open>filters\<close> and
  \<open>access\<close>; \<open>access\<close> maps a zone name to a dictionary.\<close>

record cloud_conf =
  filters :: "filter_conf option"
  access :: "(string \<times> (string \<times> cfgval) list) list option"

section \<open>The poller worker (\<open>Ec2Conn\<close>)\<close>

type_synonym labels = "(string \<times> string) list"

type_synonym fact = "int \<times> labels"

record ec2conn =
  canceled :: bool
  zone :: string
  region :: string
  aws_key :: cfgval
  aws_secret :: cfgval
  tag_filters :: "(string \<times> regex) list"
  status_filter :: regex
  data_queue :: "fact list"
  alive :: bool      \<comment> \<open>the thread has been started\<close>

text \<open>What the code reads of a \<open>boto\<close> instance.\<close>

record ec2_instance =
  state :: string
  instance_type :: "string option"
  image_id :: "string option"
  instance_tags :: "(string \<times> string option) list"

text \<open>
  The two shapes of a filter value (lines 76-79 and 82-85):
  \<^verbatim>\<open>
    re.compile("^"+value+"$")
    re.compile("^("+"|".join(value)+")$")
  \<close>
\<close>

fun compile_filter :: "cfgval \<Rightarrow> error + regex" where
  "compile_filter (CStr v) = re_compile (''^'' @ v @ ''$'')"
| "compile_filter (CList vs) = re_compile (''^('' @ join ''|'' vs @ '')$'')"

text \<open>The loop over \<open>filter_conf['tags'].iteritems()\<close>, storing under \<open>tag.lower()\<close>.\<close>

fun compile_tags :: "(string \<times> cfgval) list \<Rightarrow> (string \<times> regex) list \<Rightarrow> error + (string \<times> regex) list" where
  "compile_tags [] tf = Inr tf"
| "compile_tags ((tag, v) # rest) tf =
     (case compile_filter v of
        Inl e \<Rightarrow> Inl e
      | Inr r \<Rightarrow> compile_tags rest (AList.update (lower tag) r tf))"

definition compile_status :: "filter_conf \<Rightarrow> error + regex" where
  "compile_status fc =
     (case status fc of
        None \<Rightarrow> re_compile ''.*''
      | Some v \<Rightarrow> compile_filter v)"

text \<open>\<open>Ec2Conn.__init__\<close>.\<close>

definition Ec2Conn_init :: "string \<Rightarrow> string \<Rightarrow> cfgval \<Rightarrow> cfgval \<Rightarrow> filter_conf \<Rightarrow> error + ec2conn" where
  "Ec2Conn_init z r k s fc =
     (case (case tags fc of None \<Rightarrow> Inr [] | Some ts \<Rightarrow> compile_tags ts []) of
        Inl e \<Rightarrow> Inl e
      | Inr tf \<Rightarrow>
          (case compile_status fc of
             Inl e \<Rightarrow> Inl e
           | Inr sf \<Rightarrow>
               Inr \<lparr>canceled = False, zone = z, region = r, aws_key = k, aws_secret = s,
                    tag_filters = tf, status_filter = sf, data_queue = [], alive = False\<rparr>))"

text \<open>\<open>Ec2Conn.get\<close>: the generator, run to its end.\<close>

definition Ec2Conn_get :: "ec2conn \<Rightarrow> fact list \<times> ec2conn" where
  "Ec2Conn_get w = (case get_loop (data_queue w) [] of (out, q) \<Rightarrow> (out, w\<lparr>data_queue := q\<rparr>))"

text \<open>
  \<open>Ec2Conn._check_tags\<close>:
  \<^verbatim>\<open>
    for tag, filter in self._tag_filters.iteritems():
        if tag not in instance_tags.keys():
            return False
        if not filter.match(instance_tags[tag]):
            return False
    return True
  \<close>
  \<open>filter.match(None)\<close> raises \<open>TypeError\<close>.
\<close>

fun check_tags_loop :: "(string \<times> regex) list \<Rightarrow> (string \<times> string option) list \<Rightarrow> error + bool" where
  "check_tags_loop [] its = Inr True"
| "check_tags_loop ((tag, flt) # rest) its =
     (if tag \<notin> set (map fst its) then Inr False
      else case map_of its tag of
             None \<Rightarrow> Inl (KeyError tag)
           | Some None \<Rightarrow> Inl TypeError
           | Some (Some v) \<Rightarrow>
               if \<not> re_match flt v then Inr False else check_tags_loop rest its)"

definition check_tags :: "ec2conn \<Rightarrow> (string \<times> string option) list \<Rightarrow> error + bool" where
  "check_tags w its = check_tags_loop (tag_filters w) its"

text \<open>
  Lines 134-138 of \<open>Ec2Conn.run\<close>: the label dictionary of an instance,
  \<^verbatim>\<open>
    tags = {"zone": self.zone, "region": self.region,
            "machine": instance.instance_type, "ami": instance.image_id}
    for tag, val in instance_tags.iteritems():
        tags[tag] = val
    tags = dict((k, v) for k, v in tags.iteritems() if v is not None)
  \<close>
\<close>

definition builtin_labels :: "ec2conn \<Rightarrow> ec2_instance \<Rightarrow> (string \<times> string option) list" where
  "builtin_labels w i =
     [(''zone'', Some (zone w)), (''region'', Some (region w)),
      (''machine'', instance_type i), (''ami'', image_id i)]"

definition all_labels :: "ec2conn \<Rightarrow> ec2_instance \<Rightarrow> (string \<times> string option) list" where
  "all_labels w i = foldl (\<lambda>t (tag, val). AList.update tag val t) (builtin_labels w i) (instance_tags i)"

definition drop_none :: "(string \<times> string option) list \<Rightarrow> labels" where
  "drop_none t = concat (map (\<lambda>(k, v). case v of None \<Rightarrow> [] | Some s \<Rightarrow> [(k, s)]) t)"

definition make_labels :: "ec2conn \<Rightarrow> ec2_instance \<Rightarrow> labels" where
  "make_labels w i = drop_none (all_labels w i)"

text \<open>
  The loop over the instances of one poll (lines 126-139). It ends early when the
  worker is canceled, and an uncaught \<open>TypeError\<close> ends the thread; the facts enqueued
  until then stay in the queue.
\<close>

fun process_instances :: "ec2conn \<Rightarrow> ec2_instance list \<Rightarrow> error option \<times> ec2conn" where
  "process_instances w [] = (None, w)"
| "process_instances w (i # rest) =
     (if canceled w then (None, w)
      else if \<not> re_match (status_filter w) (state i) then process_instances w rest
      else case check_tags w (instance_tags i) of
             Inl e \<Rightarrow> (Some e, w)
           | Inr ok \<Rightarrow>
               if \<not> ok then process_instances w rest
               else process_instances
                      (w\<lparr>data_queue := put_nowait (1, make_labels w i) (data_queue w)\<rparr>) rest)"

section \<open>Metric families (\<open>prometheus_client.core.GaugeMetricFamily\<close>)\<close>

text \<open>
  A family has a name, a help text, label names and the list of its samples.
  \<open>add_metric(labels, value)\<close> appends the sample
  \<open>(name, dict(zip(labelnames, labels)), value)\<close>.
\<close>

record sample =
  sample_name :: string
  sample_labels :: "(string \<times> string) list"
  sample_value :: int

record metric_family =
  family_name :: string
  documentation :: string
  labelnames :: "string list"
  samples :: "sample list"

definition GaugeMetricFamily :: "string \<Rightarrow> string \<Rightarrow> string list \<Rightarrow> metric_family" where
  "GaugeMetricFamily n d ls = \<lparr>family_name = n, documentation = d, labelnames = ls, samples = []\<rparr>"

definition add_metric :: "string list \<Rightarrow> int \<Rightarrow> metric_family \<Rightarrow> metric_family" where
  "add_metric ls v m =
     m\<lparr>samples := samples m @
          [\<lparr>sample_name = family_name m, sample_labels = zip (labelnames m) ls, sample_value = v\<rparr>]\<rparr>"

section \<open>The aggregator (\<open>Ec2Collector\<close>)\<close>

text \<open>
  \<open>_metrics\<close> is a dictionary keyed by frozensets of (name, value) pairs: a map from
  sets of pairs. Python leaves the iteration order of a frozenset open; the model
  iterates in the order of \<open>sorted_list_of_set\<close>.
\<close>

record ec2collector =
  conn :: "ec2conn list"
  alive_metric :: metric_family
  metrics :: "(string \<times> string) set \<rightharpoonup> metric_family"

definition frozenset_iter :: "(string \<times> string) set \<Rightarrow> (string \<times> string) list" where
  "frozenset_iter S = sorted_list_of_set S"

text \<open>
  The body of the inner loop of \<open>collect\<close> (lines 233-240) for one drained fact: the
  new \<open>_metrics\<close> and the family that is yielded, as it is at that moment.
  \<^verbatim>\<open>
    frozen_tags = frozenset(sorted(tags.items(), key=lambda y: y[0]))
    if frozen_tags not in self._metrics.keys():
        self._metrics[frozen_tags] = GaugeMetricFamily("ec2_number_instances",
                                         "Number of Aws EC2 instances",
                                         labels=sorted([x[0] for x in frozen_tags]))
    self._metrics[frozen_tags].add_metric(
        [x[1] for x in sorted(frozen_tags, key=lambda y: y[0])], val)
    yield self._metrics[frozen_tags]
  \<close>
\<close>

definition frozen_tags_of :: "labels \<Rightarrow> (string \<times> string) set" where
  "frozen_tags_of t = set (sort_key fst t)"

definition new_family :: "(string \<times> string) set \<Rightarrow> metric_family" where
  "new_family frozen_tags =
     GaugeMetricFamily ''ec2_number_instances'' ''Number of Aws EC2 instances''
       (sort (map fst (frozenset_iter frozen_tags)))"

definition collect_fact ::
  "fact \<Rightarrow> ((string \<times> string) set \<rightharpoonup> metric_family) \<Rightarrow>
     ((string \<times> string) set \<rightharpoonup> metric_family) \<times> metric_family" where
  "collect_fact f ms =
     (case f of (val, t) \<Rightarrow>
        let frozen_tags = frozen_tags_of t;
            fam = (case ms frozen_tags of None \<Rightarrow> new_family frozen_tags | Some m \<Rightarrow> m);
            fam' = add_metric (map snd (sort_key fst (frozenset_iter frozen_tags))) val fam
        in (ms(frozen_tags \<mapsto> fam'), fam'))"

fun collect_facts ::
  "fact list \<Rightarrow> ((string \<times> string) set \<rightharpoonup> metric_family) \<Rightarrow> metric_family list \<Rightarrow>
     ((string \<times> string) set \<rightharpoonup> metric_family) \<times> metric_family list" where
  "collect_facts [] ms out = (ms, out)"
| "collect_facts (f # fs) ms out =
     (case collect_fact f ms of (ms', fam) \<Rightarrow> collect_facts fs ms' (out @ [fam]))"

text \<open>The loop over \<open>self._conn\<close>: every worker's queue is drained in turn.\<close>

fun collect_conns ::
  "ec2conn list \<Rightarrow> ((string \<times> string) set \<rightharpoonup> metric_family) \<Rightarrow> metric_family list \<Rightarrow>
     ec2conn list \<times> ((string \<times> string) set \<rightharpoonup> metric_family) \<times> metric_family list" where
  "collect_conns [] ms out = ([], ms, out)"
| "collect_conns (w # ws) ms out =
     (case Ec2Conn_get w of (facts, w') \<Rightarrow>
        case collect_facts facts ms out of (ms', out') \<Rightarrow>
          case collect_conns ws ms' out' of (ws', r) \<Rightarrow> (w' # ws', r))"

text \<open>
  \<open>Ec2Collector.collect\<close>, run to its end: the families yielded, in order, and the
  collector afterwards. \<open>host\<close> is the result of \<open>socket.getfqdn()\<close>.
\<close>

definition collect :: "string \<Rightarrow> ec2collector \<Rightarrow> metric_family list \<times> ec2collector" where
  "collect host c =
     (let am = add_metric [host] 1 (alive_metric c)
      in case collect_conns (conn c) (metrics c) [am] of
           (ws, ms, out) \<Rightarrow> (out, c\<lparr>conn := ws, alive_metric := am, metrics := ms\<rparr>))"

text \<open>
  \<open>Ec2Collector.__init__\<close> (lines 193-209). The three nested loops return the workers
  started so far (\<open>self._conn\<close>: a worker is started and appended as soon as it is
  built) and the exception that ended the construction, if any.
\<close>

fun init_regions ::
  "string \<Rightarrow> cfgval \<Rightarrow> cfgval \<Rightarrow> filter_conf \<Rightarrow> string list \<Rightarrow> ec2conn list \<Rightarrow>
     ec2conn list \<times> error option" where
  "init_regions z k s fc [] cs = (cs, None)"
| "init_regions z k s fc (r # rs) cs =
     (case Ec2Conn_init z r k s fc of
        Inl e \<Rightarrow> (cs, Some e)
      | Inr w \<Rightarrow> init_regions z k s fc rs (cs @ [w\<lparr>alive := True\<rparr>]))"

fun init_zones ::
  "filter_conf \<Rightarrow> (string \<times> (string \<times> cfgval) list) list \<Rightarrow> ec2conn list \<Rightarrow>
     ec2conn list \<times> error option" where
  "init_zones fc [] cs = (cs, None)"
| "init_zones fc ((z, d) # zs) cs =
     (case map_of d ''key'' of
        None \<Rightarrow> (cs, Some (KeyError ''key''))
      | Some k \<Rightarrow>
          (case map_of d ''pwd'' of
             None \<Rightarrow> (cs, Some (KeyError ''pwd''))
           | Some s \<Rightarrow>
               (case map_of d ''region'' of
                  None \<Rightarrow> (cs, Some (KeyError ''region''))
                | Some rg \<Rightarrow>
                    (case init_regions z k s fc (cfg_iter rg) cs of
                       (cs', Some e) \<Rightarrow> (cs', Some e)
                     | (cs', None) \<Rightarrow> init_zones fc zs cs'))))"

definition no_access_msg :: "string \<Rightarrow> string" where
  "no_access_msg cloud = ''Invalid config for '' @ cloud @ '' config: no '' @ [CHR 0x27] @ ''access'' @ [CHR 0x27] @ '' defined''"

definition unknown_cloud_msg :: "string \<Rightarrow> string" where
  "unknown_cloud_msg cloud = ''Unknown cloud type '' @ [CHR 0x27] @ cloud @ [CHR 0x27] @ '' in config file''"

fun init_clouds :: "(string \<times> cloud_conf) list \<Rightarrow> ec2conn list \<Rightarrow> ec2conn list \<times> error option" where
  "init_clouds [] cs = (cs, None)"
| "init_clouds ((cloud, cc) # rest) cs =
     (let fc = (case filters cc of None \<Rightarrow> \<lparr>status = None, tags = None\<rparr> | Some f \<Rightarrow> f)
      in case access cc of
           None \<Rightarrow> (cs, Some (ExporterError (no_access_msg cloud)))
         | Some acc \<Rightarrow>
             if cloud = ''aws''
             then (case init_zones fc acc cs of
                     (cs', Some e) \<Rightarrow> (cs', Some e)
                   | (cs', None) \<Rightarrow> init_clouds rest cs')
             else (cs, Some (ExporterError (unknown_cloud_msg cloud))))"

text \<open>The first component is the list of the workers that have been started, whether
  the construction succeeds or raises.\<close>

definition Ec2Collector_init :: "(string \<times> cloud_conf) list \<Rightarrow> ec2conn list \<times> (error + ec2collector)" where
  "Ec2Collector_init conf =
     (case init_clouds conf [] of
        (cs, Some e) \<Rightarrow> (cs, Inl e)
      | (cs, None) \<Rightarrow>
          (cs, Inr \<lparr>conn = cs,
                    alive_metric = GaugeMetricFamily ''ec2monitor_exporter_alive''
                                     ''Ec2 Monitor Exporter Status'' [''host''],
                    metrics = Map.empty\<rparr>))"

section \<open>Notions used to state the properties\<close>

text \<open>
  The characters with a special meaning in a pattern (\<open>SPECIAL_CHARS\<close> of \<open>sre_parse\<close>
  and the closing parenthesis), and the filter values made of ordinary characters only.
\<close>

definition special :: "char \<Rightarrow> bool" where
  "special c = (c \<in> set ''()|*.^$[{+?'' \<or> c = backslash)"

definition literal :: "string \<Rightarrow> bool" where
  "literal v = list_all (\<lambda>c. \<not> special c) v"

fun alternatives :: "cfgval \<Rightarrow> string list" where
  "alternatives (CStr v) = [v]"
| "alternatives (CList vs) = vs"

text \<open>The alternatives a filter value lists, and the expressions they compile to.\<close>

definition lits :: "string \<Rightarrow> regex" where
  "lits v = mk_seq (map RLit v)"

definition group_of :: "string list \<Rightarrow> regex" where
  "group_of vs = foldr RAlt (map lits (butlast vs)) (lits (last vs))"

section \<open>The fact queue: draining\<close>

lemma get_loop_Nil: "get_loop [] out = (out, [])"
  by (subst get_loop.simps) (simp add: get_nowait_def)

lemma get_loop_Cons: "get_loop (x # q) out = get_loop q (out @ [x])"
  by (subst get_loop.simps) (simp add: get_nowait_def)

lemma get_loop_drains: "get_loop q out = (out @ q, [])"
  by (induction q arbitrary: out) (simp_all add: get_loop_Nil get_loop_Cons)

lemma Ec2Conn_get_eq: "Ec2Conn_get w = (data_queue w, w\<lparr>data_queue := []\<rparr>)"
  by (simp add: Ec2Conn_get_def get_loop_drains)

lemma foldl_put_nowait: "foldl (\<lambda>q x. put_nowait x q) q xs = q @ xs"
  by (induction xs arbitrary: q) (simp_all add: put_nowait_def)

text \<open>
  Claim C8. Whatever the queue holds, \<open>get\<close> returns every pending item, oldest first,
  and leaves the queue empty; items put one after the other come back in the order
  they were put; on an empty queue the result is the empty sequence. The generator
  returns normally in every case: \<open>Queue.Empty\<close> never reaches the caller.
\<close>

theorem C8_get_drains_queue_fifo:
  "Ec2Conn_get w = (data_queue w, w\<lparr>data_queue := []\<rparr>)
   \<and> fst (Ec2Conn_get (w\<lparr>data_queue := foldl (\<lambda>q x. put_nowait x q) [] xs\<rparr>)) = xs
   \<and> fst (Ec2Conn_get (w\<lparr>data_queue := []\<rparr>)) = []"
  by (simp add: Ec2Conn_get_eq foldl_put_nowait)

section \<open>The filter compiler\<close>

lemma parse_chars_append:
  "parse_chars (xs @ ys) st =
     (case parse_chars xs st of Inl e \<Rightarrow> Inl e | Inr st' \<Rightarrow> parse_chars ys st')"
  by (induction xs arbitrary: st) (simp_all split: sum.splits)

lemma parse_char_literal:
  "\<not> special c \<Longrightarrow> parse_char c ((alts, cur), stk) = Inr ((alts, cur @ [RLit c]), stk)"
  by (simp add: parse_char_def special_def)

lemma parse_chars_literal:
  "literal v \<Longrightarrow> parse_chars v ((alts, cur), stk) = Inr ((alts, cur @ map RLit v), stk)"
  by (induction v arbitrary: cur) (simp_all add: literal_def parse_char_literal)

lemma join_Cons: "join sep (x # xs) = (if xs = [] then x else x @ sep @ join sep xs)"
  by (cases xs) simp_all

lemma parse_chars_join:
  "list_all literal vs \<Longrightarrow> vs \<noteq> [] \<Longrightarrow>
   parse_chars (join ''|'' vs) ((alts, []), stk)
     = Inr ((alts @ map lits (butlast vs), map RLit (last vs)), stk)"
proof (induction vs arbitrary: alts)
  case Nil
  then show ?case by simp
next
  case (Cons x xs)
  have bar: "parse_char CHR ''|'' ((alts, map RLit x), stk) = Inr ((alts @ [lits x], []), stk)"
    by (simp add: parse_char_def lits_def)
  show ?case
  proof (cases "xs = []")
    case True
    with Cons.prems show ?thesis by (simp add: parse_chars_literal)
  next
    case False
    with Cons.prems Cons.IH[of "alts @ [lits x]"] show ?thesis
      by (simp add: join_Cons parse_chars_append parse_chars_literal bar)
  qed
qed

lemma compile_filter_CStr:
  assumes "literal v"
  shows "compile_filter (CStr v) = Inr (RSeq RBol (foldr RSeq (map RLit v) (RSeq REol REps)))"
proof -
  have 1: "parse_char CHR ''^'' (([], []), []) = Inr (([], [RBol]), [])"
    by (simp add: parse_char_def)
  have 2: "parse_char CHR ''$'' (([], RBol # map RLit v), []) = Inr (([], RBol # map RLit v @ [REol]), [])"
    by (simp add: parse_char_def)
  show ?thesis
    using assms
    by (simp add: re_compile_def parse_chars_append 1 2 parse_chars_literal
        close_frame_def mk_seq_def)
qed

lemma compile_filter_CList:
  assumes "list_all literal vs" "vs \<noteq> []"
  shows "compile_filter (CList vs) = Inr (RSeq RBol (RSeq (group_of vs) (RSeq REol REps)))"
proof -
  have 1: "parse_char CHR ''^'' (([], []), []) = Inr (([], [RBol]), [])"
    by (simp add: parse_char_def)
  have 2: "parse_char CHR ''('' (([], [RBol]), []) = Inr (([], []), [([], [RBol])])"
    by (simp add: parse_char_def)
  have 3: "parse_char CHR '')'' ((map lits (butlast vs), map RLit (last vs)), [([], [RBol])])
             = Inr (([], [RBol, group_of vs]), [])"
    by (simp add: parse_char_def close_frame_def group_of_def lits_def)
  have 4: "parse_char CHR ''$'' (([], [RBol, group_of vs]), []) = Inr (([], [RBol, group_of vs, REol]), [])"
    by (simp add: parse_char_def)
  show ?thesis
    using assms parse_chars_join[OF assms, of "[]" "[([], [RBol])]"]
    by (simp add: re_compile_def parse_chars_append 1 2 3 4 close_frame_def mk_seq_def)
qed

lemma adv_foldr_lits:
  "adv (foldr RSeq (map RLit v) r) (b, s) =
     (if v = [] then adv r (b, s)
      else if take (length v) s = v then adv r (False, drop (length v) s) else [])"
proof (induction v arbitrary: b s)
  case Nil
  then show ?case by simp
next
  case (Cons c v)
  show ?case
  proof (cases s)
    case Nil
    then show ?thesis by simp
  next
    case (Cons x t)
    then show ?thesis using Cons.IH[of False t] by (cases v) auto
  qed
qed

lemma snd_adv_lits: "snd ` set (adv (lits v) (b, s)) = {t. s = v @ t}"
proof -
  have "take (length v) s = v \<longleftrightarrow> (\<exists>t. s = v @ t)"
    by (metis append_eq_conv_conj append_take_drop_id)
  then show ?thesis
    by (auto simp: lits_def mk_seq_def adv_foldr_lits image_iff)
qed

lemma snd_adv_foldr_RAlt:
  "snd ` set (adv (foldr RAlt rs r) p) = (\<Union>a\<in>set rs. snd ` set (adv a p)) \<union> snd ` set (adv r p)"
  by (induction rs) (auto simp: image_Un)

lemma snd_adv_alts:
  "snd ` set (adv (foldr RAlt (map lits xs) (lits y)) (b, s)) = {t. \<exists>v\<in>set (xs @ [y]). s = v @ t}"
  by (auto simp: snd_adv_foldr_RAlt snd_adv_lits)

lemma snd_adv_group:
  assumes "vs \<noteq> []"
  shows "snd ` set (adv (group_of vs) (b, s)) = {t. \<exists>v\<in>set vs. s = v @ t}"
  unfolding group_of_def snd_adv_alts using assms by simp

lemma re_match_anchored:
  "re_match (RSeq RBol (RSeq g (RSeq REol REps))) s
     \<longleftrightarrow> (\<exists>t \<in> snd ` set (adv g (True, s)). t = [] \<or> t = [newline])"
  by (auto simp: re_match_def image_iff) 


lemma re_match_single:
  "re_match (RSeq RBol (foldr RSeq (map RLit v) (RSeq REol REps))) s \<longleftrightarrow> s = v \<or> s = v @ [newline]"
proof -
  have "take (length v) s = v \<and> (drop (length v) s = [] \<or> drop (length v) s = [newline])
          \<longleftrightarrow> s = v \<or> s = v @ [newline]"
    by (metis append_Nil2 append_eq_conv_conj append_take_drop_id)
  then show ?thesis
    by (cases "v = []") (auto simp: re_match_def adv_foldr_lits)
qed

lemma re_match_group:
  assumes "vs \<noteq> []"
  shows "re_match (RSeq RBol (RSeq (group_of vs) (RSeq REol REps))) s
           \<longleftrightarrow> (\<exists>v\<in>set vs. s = v \<or> s = v @ [newline])"
  unfolding re_match_anchored snd_adv_group[OF assms] by auto

text \<open>
  Claim C7, as the code has it. A filter value is a regular expression. When every
  alternative of the value is made of ordinary characters only, compilation succeeds
  and the matcher accepts exactly the alternatives themselves, and an alternative
  followed by one final newline (the meaning of \<open>$\<close> in Python); a longer string that
  merely contains or starts with an alternative is refused.
\<close>

theorem C7_literal_filter_values_match_exactly:
  assumes "list_all literal (alternatives fv)" and "fv \<noteq> CList []"
  shows "\<exists>r. compile_filter fv = Inr r
           \<and> (\<forall>s. re_match r s \<longleftrightarrow> (\<exists>v\<in>set (alternatives fv). s = v \<or> s = v @ [newline]))"
proof (cases fv)
  case (CStr v)
  with assms have "literal v" by simp
  then show ?thesis
    unfolding CStr by (simp add: compile_filter_CStr re_match_single del: compile_filter.simps)
next
  case (CList vs)
  with assms have "list_all literal vs" "vs \<noteq> []" by simp_all
  then show ?thesis
    unfolding CList by (simp add: compile_filter_CList re_match_group del: compile_filter.simps)
qed

theorem C7_literal_filter_values_match_exactly_witness:
  "list_all literal (alternatives (CList [''running'', ''stopped''])) \<and> CList [''running'', ''stopped''] \<noteq> CList []
   \<and> (\<exists>r. compile_filter (CList [''running'', ''stopped'']) = Inr r
          \<and> re_match r ''stopped'' \<and> \<not> re_match r ''run'' \<and> \<not> re_match r ''runningstopped'')"
proof -
  have h1: "list_all literal (alternatives (CList [''running'', ''stopped'']))"
    by (simp add: literal_def special_def backslash_def)
  have h2: "CList [''running'', ''stopped''] \<noteq> CList []" by simp
  from C7_literal_filter_values_match_exactly[OF h1 h2] obtain r where
    r: "compile_filter (CList [''running'', ''stopped'']) = Inr r"
       "\<And>s. re_match r s \<longleftrightarrow> (\<exists>v\<in>set (alternatives (CList [''running'', ''stopped''])). s = v \<or> s = v @ [newline])"
    by blast
  have "re_match r ''stopped''" "\<not> re_match r ''run''" "\<not> re_match r ''runningstopped''"
    unfolding r(2) by simp_all
  with h1 h2 r(1) show ?thesis by blast
qed

text \<open>
  Claim C7, as stated, fails: the value \<open>run.*\<close> compiles to a matcher that accepts
  \<open>running\<close>, which is not the value; and the value \<open>run\<close> accepts \<open>run\<close> followed by
  a newline, of which it is a proper prefix.
\<close>

theorem C7_regex_value_counterexample:
  "compile_filter (CStr ''run.*'')
     = Inr (RSeq RBol (RSeq (RLit CHR ''r'') (RSeq (RLit CHR ''u'') (RSeq (RLit CHR ''n'')
              (RSeq (RStar RDot) (RSeq REol REps))))))
   \<and> re_match (RSeq RBol (RSeq (RLit CHR ''r'') (RSeq (RLit CHR ''u'') (RSeq (RLit CHR ''n'')
              (RSeq (RStar RDot) (RSeq REol REps)))))) ''running''
   \<and> ''running'' \<noteq> ''run.*''
   \<and> compile_filter (CStr ''run'')
     = Inr (RSeq RBol (RSeq (RLit CHR ''r'') (RSeq (RLit CHR ''u'') (RSeq (RLit CHR ''n'')
              (RSeq REol REps)))))
   \<and> re_match (RSeq RBol (RSeq (RLit CHR ''r'') (RSeq (RLit CHR ''u'') (RSeq (RLit CHR ''n'')
              (RSeq REol REps))))) (''run'' @ [newline])"
  by (simp add: re_compile_def parse_char_def close_frame_def mk_seq_def repeat_last_def
        backslash_def re_match_def newline_def)

end
